theory Spec2Isabelle
  imports Complex_Main "HOL-Library.Sublist" "HOL-Library.AList"
begin

unbundle bit_operations_syntax

section \<open>Typeless Writer: prompt construction and provider adapters\<close>

text \<open>
  A shallow embedding of the content-generation core of \<^verbatim>\<open>streamlit_app.py\<close>:
  \<^verbatim>\<open>build_user_message\<close>, \<^verbatim>\<open>generate_with_gemini\<close>, \<^verbatim>\<open>generate_with_openai\<close> and the
  AI-transform branch of \<^verbatim>\<open>main\<close> that calls them.
\<close>

subsection \<open>Text, dictionaries and exceptions\<close>

text \<open>
  A Python \<^verbatim>\<open>str\<close> is a sequence of Unicode code points, and \<^verbatim>\<open>len\<close>, concatenation and
  comparison work on code points; so a text is a list of code points, each a natural
  number. The literals of the source are written out code point by code point.
\<close>

type_synonym ustring = "nat list"

text \<open>
  The dictionaries the prompt builder reads (a fragment, the promotion payload) map text
  keys to text values: \<^verbatim>\<open>main\<close> builds a fragment as
  \<^verbatim>\<open>{"content": ..., "created_at": ...}\<close> and the promotion as
  \<^verbatim>\<open>{"product_name": ..., "link": ...}\<close>. A dictionary is an association list; a key is
  looked up with \<open>map_of\<close>. The keys of a Python dictionary are distinct; a list that
  repeats a key stands for the dictionary of the first occurrences.
\<close>

type_synonym pydict = "(ustring \<times> ustring) list"

text \<open>
  The exceptions that can leave the modelled functions. \<open>KeyError\<close> carries the missing
  key. \<open>JSONDecodeError\<close> is raised by \<^verbatim>\<open>json.loads\<close>. \<open>IndexError\<close> and \<open>TypeError\<close> arise
  when the OpenAI response has no choice or no content. \<open>APIError\<close> stands for whatever the
  provider SDK raises (network, authentication, quota), with the SDK's own description.
\<close>

datatype exn =
    KeyError ustring
  | JSONDecodeError
  | IndexError
  | TypeError
  | APIError ustring

text \<open>\<^verbatim>\<open>d.get(k)\<close>: the value, or \<open>None\<close> for Python's \<^verbatim>\<open>None\<close>.\<close>

definition dict_get :: "pydict \<Rightarrow> ustring \<Rightarrow> ustring option" where
  "dict_get d k = map_of d k"

text \<open>\<^verbatim>\<open>d[k]\<close>: the value, or \<^verbatim>\<open>KeyError\<close>.\<close>

definition dict_getitem :: "pydict \<Rightarrow> ustring \<Rightarrow> exn + ustring" where
  "dict_getitem d k = (case map_of d k of None \<Rightarrow> Inl (KeyError k) | Some v \<Rightarrow> Inr v)"

text \<open>
  Truth value of the result of \<^verbatim>\<open>d.get(k)\<close>: \<^verbatim>\<open>None\<close> and the empty text are false.
\<close>

fun truthy :: "ustring option \<Rightarrow> bool" where
  "truthy None = False"
| "truthy (Some s) = (s \<noteq> [])"

text \<open>\<^verbatim>\<open>str(i)\<close> for a non-negative integer: its decimal digits (\<open>0x30\<close> is the digit 0).\<close>

fun str_nat :: "nat \<Rightarrow> ustring" where
  "str_nat n = (if n < 10 then [0x30 + n] else str_nat (n div 10) @ [0x30 + n mod 10])"

declare str_nat.simps [simp del]

subsection \<open>The literals of the prompt builder\<close>

text \<open>The key names \<^verbatim>\<open>content\<close>, \<^verbatim>\<open>link\<close> and \<^verbatim>\<open>product_name\<close>.\<close>

definition CONTENT :: ustring where
  "CONTENT = [0x63, 0x6F, 0x6E, 0x74, 0x65, 0x6E, 0x74]"

definition LINK :: ustring where
  "LINK = [0x6C, 0x69, 0x6E, 0x6B]"

definition PRODUCT_NAME :: ustring where
  "PRODUCT_NAME = [0x70, 0x72, 0x6F, 0x64, 0x75, 0x63, 0x74, 0x5F, 0x6E, 0x61, 0x6D, 0x65]"

text \<open>
  The lead-in sentence of line 119 (24 code points and two line feeds).
\<close>

definition LEAD_IN :: ustring where
  "LEAD_IN = [0x4EE5, 0x4E0B, 0x662F, 0x6211, 0x7684, 0x9748, 0x611F, 0x788E, 0x7247, 0xFF0C,
     0x8ACB, 0x5E6B, 0x6211, 0x6574, 0x7406, 0x6210, 0x6587, 0x7AE0, 0x548C, 0x793E, 0x7FA4,
     0x8CBC, 0x6587, 0xFF1A, 0xA, 0xA]"

text \<open>
  The pieces of the f-string of line 122: U+3010, two ideographs and a space before the
  index; U+3011 and a line feed after it; two line feeds after the content.
\<close>

definition BLOCK_OPEN :: ustring where
  "BLOCK_OPEN = [0x3010, 0x788E, 0x7247, 0x20]"

definition BLOCK_CLOSE :: ustring where
  "BLOCK_CLOSE = [0x3011, 0xA]"

definition BLANK :: ustring where
  "BLANK = [0xA, 0xA]"

text \<open>The literals of the promotion block, lines 125 to 128.\<close>

definition PROMO_HEADER :: ustring where
  "PROMO_HEADER = [0xA, 0x2D, 0x2D, 0x2D, 0xA, 0x5C0E, 0x8CFC, 0x8CC7, 0x8A0A, 0xFF1A, 0xA]"

definition PROMO_PRODUCT :: ustring where
  "PROMO_PRODUCT = [0x7522, 0x54C1, 0x2F, 0x670D, 0x52D9, 0x540D, 0x7A31, 0xFF1A]"

definition PROMO_LINK :: ustring where
  "PROMO_LINK = [0x63A8, 0x5EE3, 0x9023, 0x7D50, 0xFF1A]"

definition PROMO_INSTRUCTION :: ustring where
  "PROMO_INSTRUCTION = [0x8ACB, 0x5728, 0x793E, 0x7FA4, 0x8CBC, 0x6587, 0x4E2D, 0x81EA, 0x7136,
     0x5730, 0x878D, 0x5165, 0x9019, 0x500B, 0x63A8, 0x5EE3, 0x9023, 0x7D50, 0x3002, 0xA]"

subsection \<open>build_user_message\<close>

text \<open>
  The loop of lines 121 and 122, \<^verbatim>\<open>for i, fragment in enumerate(fragments, 1)\<close>: \<open>i\<close> is the
  running index, \<open>message\<close> the text built so far. \<^verbatim>\<open>fragment['content']\<close> raises
  \<^verbatim>\<open>KeyError\<close> when the fragment has no such key, and the loop stops there.
\<close>

fun fragments_loop :: "nat \<Rightarrow> pydict list \<Rightarrow> ustring \<Rightarrow> exn + ustring" where
  "fragments_loop i [] message = Inr message"
| "fragments_loop i (fragment # rest) message =
     (case dict_getitem fragment CONTENT of
        Inl e \<Rightarrow> Inl e
      | Inr c \<Rightarrow>
          fragments_loop (Suc i) rest
            (message @ BLOCK_OPEN @ str_nat i @ BLOCK_CLOSE @ c @ BLANK))"

text \<open>
  Lines 124 to 128. The promotion is \<^verbatim>\<open>None\<close> or a dictionary; the condition
  \<^verbatim>\<open>promotion and promotion.get("link") and promotion.get("product_name")\<close> is false for
  \<^verbatim>\<open>None\<close>, for the empty dictionary, and when either value is missing or empty.
\<close>

definition promotion_block :: "ustring \<Rightarrow> pydict option \<Rightarrow> exn + ustring" where
  "promotion_block message promotion =
     (case promotion of
        None \<Rightarrow> Inr message
      | Some p \<Rightarrow>
          if p \<noteq> [] \<and> truthy (dict_get p LINK) \<and> truthy (dict_get p PRODUCT_NAME)
          then
            (case dict_getitem p PRODUCT_NAME of
               Inl e \<Rightarrow> Inl e
             | Inr name \<Rightarrow>
                 (case dict_getitem p LINK of
                    Inl e \<Rightarrow> Inl e
                  | Inr link \<Rightarrow>
                      Inr (message @ PROMO_HEADER @ PROMO_PRODUCT @ name @ [0xA]
                           @ PROMO_LINK @ link @ [0xA] @ PROMO_INSTRUCTION)))
          else Inr message)"

definition build_user_message :: "pydict list \<Rightarrow> pydict option \<Rightarrow> exn + ustring" where
  "build_user_message fragments promotion =
     (case fragments_loop 1 fragments LEAD_IN of
        Inl e \<Rightarrow> Inl e
      | Inr message \<Rightarrow> promotion_block message promotion)"

subsection \<open>The prompt as the specification describes it\<close>

text \<open>
  The specification's description of the prompt: a numbered block is the opening mark, the
  index, the closing mark, the content and a blank line; the blocks follow the lead-in in
  input order, numbered from 1.
\<close>

definition numbered_block :: "nat \<Rightarrow> ustring \<Rightarrow> ustring" where
  "numbered_block n c = BLOCK_OPEN @ str_nat n @ BLOCK_CLOSE @ c @ BLANK"

definition numbered_blocks_from :: "nat \<Rightarrow> ustring list \<Rightarrow> ustring" where
  "numbered_blocks_from start cs =
     concat (map (\<lambda>(n, c). numbered_block n c) (zip [start ..< start + length cs] cs))"

definition numbered_blocks :: "ustring list \<Rightarrow> ustring" where
  "numbered_blocks cs = numbered_blocks_from 1 cs"

text \<open>
  The promotion block, and the two fields of a promotion that is complete: both
  \<^verbatim>\<open>product_name\<close> and \<^verbatim>\<open>link\<close> present and non-empty.
\<close>

definition promotion_text :: "ustring \<Rightarrow> ustring \<Rightarrow> ustring" where
  "promotion_text name link =
     PROMO_HEADER @ PROMO_PRODUCT @ name @ [0xA] @ PROMO_LINK @ link @ [0xA] @ PROMO_INSTRUCTION"

definition promotion_fields :: "pydict option \<Rightarrow> (ustring \<times> ustring) option" where
  "promotion_fields promotion =
     (case promotion of
        None \<Rightarrow> None
      | Some p \<Rightarrow>
          (case dict_get p PRODUCT_NAME of
             None \<Rightarrow> None
           | Some name \<Rightarrow>
               (case dict_get p LINK of
                  None \<Rightarrow> None
                | Some link \<Rightarrow> if name \<noteq> [] \<and> link \<noteq> [] then Some (name, link) else None)))"

text \<open>The value under \<^verbatim>\<open>content\<close> of each fragment, in order.\<close>

definition contents_of :: "pydict list \<Rightarrow> ustring option list" where
  "contents_of fragments = map (\<lambda>f. dict_get f CONTENT) fragments"

subsection \<open>Decoding the response: json.loads\<close>

text \<open>
  Both adapters end in \<^verbatim>\<open>json.loads\<close> on the response text. The decoder is Python's
  standard library, not code of the repository; it is modelled here after CPython's
  implementation (\<^verbatim>\<open>json/decoder.py\<close>, \<^verbatim>\<open>json/scanner.py\<close> and their C counterparts), in its
  default configuration (strict, no hooks), on the text that remains to be read instead
  of on an index into the text. Every \<^verbatim>\<open>JSONDecodeError\<close> is the one value \<open>JSONDecodeError\<close>: the message and the
  position are not modelled. Limits of the interpreter (recursion depth, the digit limit
  of \<^verbatim>\<open>int\<close>) are not modelled either.

  A decoded value: \<^verbatim>\<open>None\<close>, a \<^verbatim>\<open>bool\<close>, an \<^verbatim>\<open>int\<close>, a \<^verbatim>\<open>float\<close>, a \<^verbatim>\<open>str\<close>, a \<^verbatim>\<open>list\<close> or
  a \<^verbatim>\<open>dict\<close> with text keys. A float is kept as the literal it was read from (Python
  converts the literal to a binary floating-point number).
\<close>

datatype json =
    JNull
  | JBool bool
  | JInt int
  | JFloat ustring
  | JString ustring
  | JArray "json list"
  | JObject "(ustring \<times> json) list"

text \<open>\<^verbatim>\<open>WHITESPACE\<close>: space, tab, line feed, carriage return.\<close>

definition is_ws :: "nat \<Rightarrow> bool" where
  "is_ws c = (c = 0x20 \<or> c = 0x9 \<or> c = 0xA \<or> c = 0xD)"

definition skip_ws :: "ustring \<Rightarrow> ustring" where
  "skip_ws s = dropWhile is_ws s"

definition is_digit :: "nat \<Rightarrow> bool" where
  "is_digit c = (0x30 \<le> c \<and> c \<le> 0x39)"

text \<open>The value of a hexadecimal digit: \<open>0-9\<close>, \<open>A-F\<close>, \<open>a-f\<close>.\<close>

definition hex_digit :: "nat \<Rightarrow> nat option" where
  "hex_digit c =
     (if 0x30 \<le> c \<and> c \<le> 0x39 then Some (c - 0x30)
      else if 0x41 \<le> c \<and> c \<le> 0x46 then Some (c - 0x41 + 10)
      else if 0x61 \<le> c \<and> c \<le> 0x66 then Some (c - 0x61 + 10)
      else None)"

text \<open>\<^verbatim>\<open>_decode_uXXXX\<close>: the four hexadecimal digits that follow \<^verbatim>\<open>\u\<close>.\<close>

fun decode_uXXXX :: "ustring \<Rightarrow> nat option" where
  "decode_uXXXX (a # b # c # d # rest) =
     (case hex_digit a of None \<Rightarrow> None | Some w \<Rightarrow>
      case hex_digit b of None \<Rightarrow> None | Some x \<Rightarrow>
      case hex_digit c of None \<Rightarrow> None | Some y \<Rightarrow>
      case hex_digit d of None \<Rightarrow> None | Some z \<Rightarrow>
        Some (((w * 16 + x) * 16 + y) * 16 + z))"
| "decode_uXXXX s = None"

text \<open>
  The table \<^verbatim>\<open>BACKSLASH\<close> of the one-letter escapes: quote, backslash, slash, and
  \<open>b f n r t\<close>.
\<close>

definition backslash :: "nat \<Rightarrow> nat option" where
  "backslash esc =
     (if esc = 0x22 then Some 0x22
      else if esc = 0x5C then Some 0x5C
      else if esc = 0x2F then Some 0x2F
      else if esc = 0x62 then Some 0x8
      else if esc = 0x66 then Some 0xC
      else if esc = 0x6E then Some 0xA
      else if esc = 0x72 then Some 0xD
      else if esc = 0x74 then Some 0x9
      else None)"

definition append_char ::
  "nat \<Rightarrow> (ustring \<times> ustring) option \<Rightarrow> (ustring \<times> ustring) option" where
  "append_char c r = (case r of None \<Rightarrow> None | Some (chunks, end) \<Rightarrow> Some (c # chunks, end))"

text \<open>
  \<^verbatim>\<open>scanstring\<close>, called on the text after the opening quote: the decoded text and what
  follows the closing quote. A control character, an unknown escape, a malformed
  \<^verbatim>\<open>\uXXXX\<close> and a missing closing quote are errors. A high surrogate followed by an
  escaped low surrogate is one code point.
\<close>

fun scanstring :: "ustring \<Rightarrow> (ustring \<times> ustring) option" where
  "scanstring [] = None"
| "scanstring (c # s) =
     (if c = 0x22 then Some ([], s)
      else if c = 0x5C then
        (case s of
           [] \<Rightarrow> None
         | esc # s1 \<Rightarrow>
             if esc \<noteq> 0x75 then
               (case backslash esc of
                  None \<Rightarrow> None
                | Some char \<Rightarrow> append_char char (scanstring s1))
             else
               (case decode_uXXXX s1 of
                  None \<Rightarrow> None
                | Some uni \<Rightarrow>
                    if 0xD800 \<le> uni \<and> uni \<le> 0xDBFF \<and> take 2 (drop 4 s1) = [0x5C, 0x75]
                    then
                      (case decode_uXXXX (drop 6 s1) of
                         None \<Rightarrow> None
                       | Some uni2 \<Rightarrow>
                           if 0xDC00 \<le> uni2 \<and> uni2 \<le> 0xDFFF
                           then append_char
                                  (0x10000 + (push_bit 10 (uni - 0xD800) OR (uni2 - 0xDC00)))
                                  (scanstring (drop 10 s1))
                           else append_char uni (scanstring (drop 4 s1)))
                    else append_char uni (scanstring (drop 4 s1))))
      else if c < 0x20 then None
      else append_char c (scanstring s))"

text \<open>
  \<^verbatim>\<open>NUMBER_RE\<close>, the pattern \<^verbatim>\<open>(-?(?:0|[1-9][0-9]*))(\.[0-9]+)?([eE][-+]?[0-9]+)?\<close>, group by
  group: the integer part must match, the fraction and the exponent match when they can.
\<close>

definition match_integer :: "ustring \<Rightarrow> (ustring \<times> ustring) option" where
  "match_integer s =
     (let (sign, s1) =
        (case s of [] \<Rightarrow> ([], s) | c # s' \<Rightarrow> if c = 0x2D then ([c], s') else ([], s))
      in case s1 of
           [] \<Rightarrow> None
         | d # s2 \<Rightarrow>
             if d = 0x30 then Some (sign @ [d], s2)
             else if 0x31 \<le> d \<and> d \<le> 0x39
             then Some (sign @ d # takeWhile is_digit s2, dropWhile is_digit s2)
             else None)"

definition match_frac :: "ustring \<Rightarrow> ustring \<times> ustring" where
  "match_frac s =
     (case s of
        [] \<Rightarrow> ([], s)
      | c # s1 \<Rightarrow>
          if c = 0x2E \<and> takeWhile is_digit s1 \<noteq> []
          then (c # takeWhile is_digit s1, dropWhile is_digit s1)
          else ([], s))"

definition match_exp :: "ustring \<Rightarrow> ustring \<times> ustring" where
  "match_exp s =
     (case s of
        [] \<Rightarrow> ([], s)
      | c # s1 \<Rightarrow>
          if c = 0x45 \<or> c = 0x65
          then
            (let (sign, s2) =
               (case s1 of
                  [] \<Rightarrow> ([], s1)
                | g # s' \<Rightarrow> if g = 0x2D \<or> g = 0x2B then ([g], s') else ([], s1))
             in if takeWhile is_digit s2 \<noteq> []
                then (c # sign @ takeWhile is_digit s2, dropWhile is_digit s2)
                else ([], s))
          else ([], s))"

text \<open>\<^verbatim>\<open>int(integer)\<close> for the integer part, an optional minus sign and digits.\<close>

definition digits_value :: "ustring \<Rightarrow> nat" where
  "digits_value ds = foldl (\<lambda>acc d. 10 * acc + (d - 0x30)) 0 ds"

definition parse_int :: "ustring \<Rightarrow> int" where
  "parse_int integer =
     (case integer of
        [] \<Rightarrow> 0
      | c # ds \<Rightarrow>
          if c = 0x2D then - int (digits_value ds) else int (digits_value (c # ds)))"

definition match_number :: "ustring \<Rightarrow> (json \<times> ustring) option" where
  "match_number s =
     (case match_integer s of
        None \<Rightarrow> None
      | Some (integer, s1) \<Rightarrow>
          (let (fraction, s2) = match_frac s1;
               (exponent, s3) = match_exp s2
           in if fraction \<noteq> [] \<or> exponent \<noteq> []
              then Some (JFloat (integer @ fraction @ exponent), s3)
              else Some (JInt (parse_int integer), s3)))"

text \<open>The words \<^verbatim>\<open>null true false NaN Infinity -Infinity\<close>.\<close>

definition NULL :: ustring where
  "NULL = [0x6E, 0x75, 0x6C, 0x6C]"

definition TRUE :: ustring where
  "TRUE = [0x74, 0x72, 0x75, 0x65]"

definition FALSE :: ustring where
  "FALSE = [0x66, 0x61, 0x6C, 0x73, 0x65]"

definition NAN :: ustring where
  "NAN = [0x4E, 0x61, 0x4E]"

definition INFINITY :: ustring where
  "INFINITY = [0x49, 0x6E, 0x66, 0x69, 0x6E, 0x69, 0x74, 0x79]"

definition NEG_INFINITY :: ustring where
  "NEG_INFINITY = [0x2D, 0x49, 0x6E, 0x66, 0x69, 0x6E, 0x69, 0x74, 0x79]"

text \<open>
  The branches of \<^verbatim>\<open>_scan_once\<close> that read no nested value, in its order: the three
  words, a number, the three float constants.
\<close>

definition scan_literal :: "ustring \<Rightarrow> (json \<times> ustring) option" where
  "scan_literal s =
     (if take 4 s = NULL then Some (JNull, drop 4 s)
      else if take 4 s = TRUE then Some (JBool True, drop 4 s)
      else if take 5 s = FALSE then Some (JBool False, drop 5 s)
      else
        (case match_number s of
           Some r \<Rightarrow> Some r
         | None \<Rightarrow>
             if take 3 s = NAN then Some (JFloat NAN, drop 3 s)
             else if take 8 s = INFINITY then Some (JFloat INFINITY, drop 8 s)
             else if take 9 s = NEG_INFINITY then Some (JFloat NEG_INFINITY, drop 9 s)
             else None))"

text \<open>
  \<^verbatim>\<open>dict(pairs)\<close>: a key that comes again keeps its place and takes the later value.
\<close>

definition dict_of_pairs :: "(ustring \<times> json) list \<Rightarrow> (ustring \<times> json) list" where
  "dict_of_pairs pairs = foldl (\<lambda>d (k, v). AList.update k v d) [] pairs"

text \<open>Each reader leaves less text than it was given; the recursion below rests on it.\<close>

lemma length_skip_ws: "length (skip_ws s) \<le> length s"
  by (simp add: skip_ws_def length_dropWhile_le)

lemma skip_ws_Cons_length: "skip_ws s = c # s' \<Longrightarrow> length s' < length s"
  using length_skip_ws [of s] by simp

lemma append_char_Some:
  "append_char c r = Some (chunks, end) \<longleftrightarrow> (\<exists>cs. r = Some (cs, end) \<and> chunks = c # cs)"
  by (auto simp: append_char_def split: option.splits)

lemma scanstring_length:
  "scanstring s = Some (chunks, end) \<Longrightarrow> length end < length s"
proof (induction "length s" arbitrary: s chunks rule: less_induct)
  case less
  from less.prems obtain c s' where s: "s = c # s'"
    by (cases s) auto
  have step: "length end < length t"
    if "scanstring t = Some (cs, end)" "length t \<le> length s'" for t cs
    using less.hyps [OF _ that(1)] that(2) by (simp add: s)
  show ?case
    using less.prems
    by (auto simp: s append_char_Some split: if_splits list.splits option.splits
        dest!: step)
qed

lemma skip_ws_measure_Suc:
  "length x < b \<Longrightarrow> b < n \<Longrightarrow> 2 * length (skip_ws x) < Suc (2 * n)"
  using length_skip_ws [of x] by linarith

lemma skip_ws_measure:
  "length x < b \<Longrightarrow> b < n \<Longrightarrow> length (skip_ws x) < n"
  using length_skip_ws [of x] by linarith

text \<open>
  \<^verbatim>\<open>_scan_once\<close>, \<^verbatim>\<open>JSONObject\<close> and \<^verbatim>\<open>JSONArray\<close>. \<open>scan_once\<close> reads one value at the head
  of the text. \<open>JSONObject\<close> is the loop of the object reader, entered after the opening
  quote of a key: the key, a colon, a value, then the closing brace or a comma and the
  next key. \<open>JSONArray\<close> is the loop of the array reader, entered at a value: the value,
  then the closing bracket or a comma and the next value. Each turn of a loop is one
  recursive call.

  The tests \<open>length s3 < length s\<close> and \<open>length s1 < length s\<close> are not in the Python:
  they let the definition be accepted as terminating, and they never fail
  (\<open>scan_once_consumes\<close> below).
\<close>

function (sequential) scan_once :: "ustring \<Rightarrow> (json \<times> ustring) option"
  and JSONObject :: "ustring \<Rightarrow> ((ustring \<times> json) list \<times> ustring) option"
  and JSONArray :: "ustring \<Rightarrow> (json list \<times> ustring) option"
where
  "scan_once [] = None"
| "scan_once (nextchar # s) =
     (if nextchar = 0x22 then
        (case scanstring s of
           None \<Rightarrow> None
         | Some (chunks, end) \<Rightarrow> Some (JString chunks, end))
      else if nextchar = 0x7B then
        (case skip_ws s of
           [] \<Rightarrow> None
         | c # s1 \<Rightarrow>
             if c = 0x7D then Some (JObject [], s1)
             else if c \<noteq> 0x22 then None
             else
               (case JSONObject s1 of
                  None \<Rightarrow> None
                | Some (pairs, end) \<Rightarrow> Some (JObject (dict_of_pairs pairs), end)))
      else if nextchar = 0x5B then
        (case skip_ws s of
           [] \<Rightarrow> None
         | c # s1 \<Rightarrow>
             if c = 0x5D then Some (JArray [], s1)
             else
               (case JSONArray (c # s1) of
                  None \<Rightarrow> None
                | Some (values, end) \<Rightarrow> Some (JArray values, end)))
      else scan_literal (nextchar # s))"
| "JSONObject s =
     (case scanstring s of
        None \<Rightarrow> None
      | Some (key, s1) \<Rightarrow>
          (case skip_ws s1 of
             [] \<Rightarrow> None
           | colon # s2 \<Rightarrow>
               if colon \<noteq> 0x3A then None
               else
                 (case scan_once (skip_ws s2) of
                    None \<Rightarrow> None
                  | Some (value, s3) \<Rightarrow>
                      if \<not> length s3 < length s then None
                      else
                        (case skip_ws s3 of
                           [] \<Rightarrow> None
                         | nextchar # s4 \<Rightarrow>
                             if nextchar = 0x7D then Some ([(key, value)], s4)
                             else if nextchar \<noteq> 0x2C then None
                             else
                               (case skip_ws s4 of
                                  [] \<Rightarrow> None
                                | quote # s5 \<Rightarrow>
                                    if quote \<noteq> 0x22 then None
                                    else
                                      (case JSONObject s5 of
                                         None \<Rightarrow> None
                                       | Some (pairs, end) \<Rightarrow>
                                           Some ((key, value) # pairs, end)))))))"
| "JSONArray s =
     (case scan_once s of
        None \<Rightarrow> None
      | Some (value, s1) \<Rightarrow>
          if \<not> length s1 < length s then None
          else
            (case skip_ws s1 of
               [] \<Rightarrow> None
             | nextchar # s2 \<Rightarrow>
                 if nextchar = 0x5D then Some ([value], s2)
                 else if nextchar \<noteq> 0x2C then None
                 else
                   (case JSONArray (skip_ws s2) of
                      None \<Rightarrow> None
                    | Some (values, end) \<Rightarrow> Some (value # values, end))))"
  by pat_completeness auto

termination
  apply (relation "measure (\<lambda>x. case x of
           Inl s \<Rightarrow> 2 * length s
         | Inr (Inl s) \<Rightarrow> 2 * length s + 1
         | Inr (Inr s) \<Rightarrow> 2 * length s + 1)")
  apply (auto dest!: skip_ws_Cons_length scanstring_length
      intro: skip_ws_measure_Suc skip_ws_measure)
  done

declare scan_once.simps [simp del] JSONObject.simps [simp del] JSONArray.simps [simp del]

text \<open>
  \<^verbatim>\<open>json.loads\<close> on a text: white space, one value, white space, the end of the text;
  anything else raises \<^verbatim>\<open>JSONDecodeError\<close>.
\<close>

definition json_loads :: "ustring \<Rightarrow> exn + json" where
  "json_loads s =
     (case scan_once (skip_ws s) of
        None \<Rightarrow> Inl JSONDecodeError
      | Some (obj, end) \<Rightarrow> if skip_ws end = [] then Inr obj else Inl JSONDecodeError)"

subsection \<open>The provider adapters\<close>
















subsection \<open>The AI-transform branch of main\<close>









subsection \<open>The result shape and a synthetic response\<close>

text \<open>The keys \<^verbatim>\<open>article\<close>, \<^verbatim>\<open>title\<close>, \<^verbatim>\<open>socialPosts\<close> and \<^verbatim>\<open>platform\<close> of the result.\<close>

definition ARTICLE :: ustring where
  "ARTICLE = [0x61, 0x72, 0x74, 0x69, 0x63, 0x6C, 0x65]"

definition TITLE :: ustring where
  "TITLE = [0x74, 0x69, 0x74, 0x6C, 0x65]"

definition SOCIAL_POSTS :: ustring where
  "SOCIAL_POSTS = [0x73, 0x6F, 0x63, 0x69, 0x61, 0x6C, 0x50, 0x6F, 0x73, 0x74, 0x73]"

definition PLATFORM :: ustring where
  "PLATFORM = [0x70, 0x6C, 0x61, 0x74, 0x66, 0x6F, 0x72, 0x6D]"



text \<open>
  The value of a result with the given title, content and posts (each post a platform
  and a content).
\<close>

definition post_value :: "ustring \<times> ustring \<Rightarrow> json" where
  "post_value post = JObject [(PLATFORM, JString (fst post)), (CONTENT, JString (snd post))]"

definition result_value :: "ustring \<Rightarrow> ustring \<Rightarrow> (ustring \<times> ustring) list \<Rightarrow> json" where
  "result_value t c posts =
     JObject [(ARTICLE, JObject [(TITLE, JString t), (CONTENT, JString c)]),
              (SOCIAL_POSTS, JArray (map post_value posts))]"

text \<open>
  A synthetic response for the round trip: the text \<^verbatim>\<open>json.dumps(result, ensure_ascii=False)\<close>
  writes. A text is written between quotes, with quote, backslash and the control
  characters escaped (\<^verbatim>\<open>\b \t \n \f \r\<close> by letter, the others as \<^verbatim>\<open>\u00XX\<close>); members and
  items are separated by a comma and a space, a key and its value by a colon and a space.
\<close>

definition hex_char :: "nat \<Rightarrow> nat" where
  "hex_char d = (if d < 10 then 0x30 + d else 0x61 + (d - 10))"

definition escape_char :: "nat \<Rightarrow> ustring" where
  "escape_char c =
     (if c = 0x22 then [0x5C, 0x22]
      else if c = 0x5C then [0x5C, 0x5C]
      else if c = 0x8 then [0x5C, 0x62]
      else if c = 0x9 then [0x5C, 0x74]
      else if c = 0xA then [0x5C, 0x6E]
      else if c = 0xC then [0x5C, 0x66]
      else if c = 0xD then [0x5C, 0x72]
      else if c < 0x20 then [0x5C, 0x75, 0x30, 0x30, hex_char (c div 16), hex_char (c mod 16)]
      else [c])"

definition dumps_string :: "ustring \<Rightarrow> ustring" where
  "dumps_string s = [0x22] @ concat (map escape_char s) @ [0x22]"

text \<open>An object of two text members, \<^verbatim>\<open>{"k1": "v1", "k2": "v2"}\<close>.\<close>

definition dumps_object2 :: "ustring \<Rightarrow> ustring \<Rightarrow> ustring \<Rightarrow> ustring \<Rightarrow> ustring" where
  "dumps_object2 k1 v1 k2 v2 =
     [0x7B] @ dumps_string k1 @ [0x3A, 0x20] @ dumps_string v1 @ [0x2C, 0x20]
       @ dumps_string k2 @ [0x3A, 0x20] @ dumps_string v2 @ [0x7D]"

definition dumps_post :: "ustring \<times> ustring \<Rightarrow> ustring" where
  "dumps_post post = dumps_object2 PLATFORM (fst post) CONTENT (snd post)"








definition RESPONSE_COMPACT :: ustring where
  "RESPONSE_COMPACT =
    [0x7B, 0x22, 0x61, 0x72, 0x74, 0x69, 0x63, 0x6C, 0x65, 0x22, 0x3A, 0x7B, 0x22, 0x74,
     0x69, 0x74, 0x6C, 0x65, 0x22, 0x3A, 0x22, 0x54, 0x22, 0x2C, 0x22, 0x63, 0x6F, 0x6E,
     0x74, 0x65, 0x6E, 0x74, 0x22, 0x3A, 0x22, 0x43, 0x22, 0x7D, 0x2C, 0x22, 0x73, 0x6F,
     0x63, 0x69, 0x61, 0x6C, 0x50, 0x6F, 0x73, 0x74, 0x73, 0x22, 0x3A, 0x5B, 0x7B, 0x22,
     0x70, 0x6C, 0x61, 0x74, 0x66, 0x6F, 0x72, 0x6D, 0x22, 0x3A, 0x22, 0x46, 0x42, 0x22,
     0x2C, 0x22, 0x63, 0x6F, 0x6E, 0x74, 0x65, 0x6E, 0x74, 0x22, 0x3A, 0x22, 0x50, 0x31,
     0x22, 0x7D, 0x5D, 0x7D]"

definition RECIPE :: ustring where
  "RECIPE =
    [0x74, 0x6F, 0x64, 0x61, 0x79, 0x20, 0x49, 0x20, 0x74, 0x72, 0x69, 0x65, 0x64, 0x20,
     0x61, 0x20, 0x6E, 0x65, 0x77, 0x20, 0x72, 0x65, 0x63, 0x69, 0x70, 0x65]"

definition PRO :: ustring where
  "PRO = [0x50, 0x72, 0x6F]"

definition X_IO :: ustring where
  "X_IO = [0x68, 0x74, 0x74, 0x70, 0x73, 0x3A, 0x2F, 0x2F, 0x78, 0x2E, 0x69, 0x6F]"


section \<open>Properties\<close>

subsection \<open>The prompt builder\<close>

lemma numbered_blocks_from_Nil: "numbered_blocks_from i [] = []"
  by (simp add: numbered_blocks_from_def)

lemma numbered_blocks_from_Cons:
  "numbered_blocks_from i (c # cs) = numbered_block i c @ numbered_blocks_from (Suc i) cs"
proof -
  have "[i ..< i + length (c # cs)] = i # [Suc i ..< Suc i + length cs]"
    by (simp add: upt_rec)
  then show ?thesis
    by (simp add: numbered_blocks_from_def)
qed

lemma numbered_blocks_from_snoc:
  "numbered_blocks_from i (cs @ [c]) =
     numbered_blocks_from i cs @ numbered_block (i + length cs) c"
  by (induction cs arbitrary: i)
     (simp_all add: numbered_blocks_from_Nil numbered_blocks_from_Cons)

lemma dict_getitem_Some: "dict_get d k = Some v \<Longrightarrow> dict_getitem d k = Inr v"
  by (simp add: dict_get_def dict_getitem_def)

lemma fragments_loop_blocks:
  "contents_of fragments = map Some cs \<Longrightarrow>
   fragments_loop i fragments message = Inr (message @ numbered_blocks_from i cs)"
proof (induction fragments arbitrary: i message cs)
  case Nil
  then show ?case by (simp add: contents_of_def numbered_blocks_from_Nil)
next
  case (Cons f fs)
  then obtain c cs' where cs: "cs = c # cs'" and c: "dict_get f CONTENT = Some c"
    and rest: "contents_of fs = map Some cs'"
    by (cases cs) (auto simp: contents_of_def)
  show ?case
    using Cons.IH [OF rest] dict_getitem_Some [OF c]
    by (simp add: cs numbered_blocks_from_Cons numbered_block_def)
qed

text \<open>A fragment without \<^verbatim>\<open>content\<close> makes the function raise \<^verbatim>\<open>KeyError\<close>.\<close>

lemma fragments_loop_KeyError:
  "None \<in> set (contents_of fragments) \<Longrightarrow>
   fragments_loop i fragments message = Inl (KeyError CONTENT)"
proof (induction fragments arbitrary: i message)
  case Nil
  then show ?case by (simp add: contents_of_def)
next
  case (Cons f fs)
  show ?case
  proof (cases "dict_get f CONTENT")
    case None
    then show ?thesis
      by (simp add: dict_get_def dict_getitem_def)
  next
    case (Some c)
    with Cons.prems have "None \<in> set (contents_of fs)"
      by (auto simp: contents_of_def)
    from Cons.IH [OF this] dict_getitem_Some [OF Some] show ?thesis
      by simp
  qed
qed

lemma build_user_message_KeyError:
  "None \<in> set (contents_of fragments) \<Longrightarrow>
   build_user_message fragments promotion = Inl (KeyError CONTENT)"
  by (simp add: build_user_message_def fragments_loop_KeyError)


lemma promotion_block_fields:
  "promotion_block message promotion =
     Inr (case promotion_fields promotion of
            None \<Rightarrow> message
          | Some (name, link) \<Rightarrow> message @ promotion_text name link)"
proof (cases promotion)
  case None
  then show ?thesis by (simp add: promotion_block_def promotion_fields_def)
next
  case (Some p)
  show ?thesis
  proof (cases "dict_get p PRODUCT_NAME")
    case None
    then show ?thesis
      using Some by (simp add: promotion_block_def promotion_fields_def)
  next
    case name: (Some name)
    show ?thesis
    proof (cases "dict_get p LINK")
      case None
      then show ?thesis
        using Some name by (simp add: promotion_block_def promotion_fields_def)
    next
      case link: (Some link)
      have "p \<noteq> []"
        using link by (auto simp: dict_get_def)
      then show ?thesis
        using Some name link dict_getitem_Some [OF name] dict_getitem_Some [OF link]
        by (auto simp: promotion_block_def promotion_fields_def promotion_text_def)
    qed
  qed
qed



text \<open>\<^verbatim>\<open>str\<close> writes the decimal digits of the index: reading them back gives the index.\<close>

lemma digits_value_snoc: "digits_value (ds @ [d]) = 10 * digits_value ds + (d - 0x30)"
  by (simp add: digits_value_def)

lemma str_nat_decimal: "digits_value (str_nat n) = n \<and> list_all is_digit (str_nat n)"
proof (induction n rule: str_nat.induct)
  case (1 n)
  show ?case
  proof (cases "n < 10")
    case True
    then show ?thesis
      by (subst (1 2) str_nat.simps) (simp add: digits_value_def is_digit_def)
  next
    case False
    with 1 have "digits_value (str_nat (n div 10)) = n div 10"
      and "list_all is_digit (str_nat (n div 10))" by simp_all
    with False show ?thesis
      by (subst (1 2) str_nat.simps) (simp add: digits_value_snoc is_digit_def)
  qed
qed

subsection \<open>Claims about build_user_message\<close>

text \<open>
  C3. For a list of fragments that each carry a \<^verbatim>\<open>content\<close>, the prompt is the lead-in
  followed by one numbered block per fragment, in input order, numbered from 1, each
  holding the whole content; a promotion only appends to that text.
\<close>

theorem build_user_message_numbered_blocks:
  assumes "fragments \<noteq> []"
    and "contents_of fragments = map Some cs"
  shows "build_user_message fragments None = Inr (LEAD_IN @ numbered_blocks cs)
    \<and> build_user_message fragments promotion =
        promotion_block (LEAD_IN @ numbered_blocks cs) promotion"
  using fragments_loop_blocks [OF assms(2), of 1 LEAD_IN]
  by (simp add: build_user_message_def promotion_block_def numbered_blocks_def)

theorem build_user_message_numbered_blocks_witness:
  "[[(CONTENT, [0x41])], [(CONTENT, [0x42, 0x43::nat])]] \<noteq> []
   \<and> contents_of [[(CONTENT, [0x41])], [(CONTENT, [0x42, 0x43])]] = map Some [[0x41], [0x42, 0x43]]
   \<and> build_user_message [[(CONTENT, [0x41])], [(CONTENT, [0x42, 0x43])]] None =
       Inr (LEAD_IN @ [0x3010, 0x788E, 0x7247, 0x20, 0x31, 0x3011, 0xA, 0x41, 0xA, 0xA]
                    @ [0x3010, 0x788E, 0x7247, 0x20, 0x32, 0x3011, 0xA, 0x42, 0x43, 0xA, 0xA])"
proof -
  have ne: "[[(CONTENT, [0x41])], [(CONTENT, [0x42, 0x43::nat])]] \<noteq> []"
    by simp
  have cs: "contents_of [[(CONTENT, [0x41])], [(CONTENT, [0x42, 0x43])]]
      = map Some [[0x41], [0x42, 0x43]]"
    by (simp add: contents_of_def dict_get_def)
  have nb: "numbered_blocks [[0x41], [0x42, 0x43]] =
      [0x3010, 0x788E, 0x7247, 0x20, 0x31, 0x3011, 0xA, 0x41, 0xA, 0xA]
      @ [0x3010, 0x788E, 0x7247, 0x20, 0x32, 0x3011, 0xA, 0x42, 0x43, 0xA, 0xA]"
    by (simp add: numbered_blocks_def numbered_blocks_from_def numbered_block_def upt_rec
        str_nat.simps BLOCK_OPEN_def BLOCK_CLOSE_def BLANK_def)
  show ?thesis
    using build_user_message_numbered_blocks [OF ne cs, of None] ne cs
    by (simp only: nb simp_thms)
qed




text \<open>
  C9. With no fragment the function raises nothing and returns the lead-in alone,
  followed by the promotion block when both promotion fields are non-empty.
\<close>

theorem build_user_message_empty:
  "build_user_message [] promotion =
     Inr (case promotion_fields promotion of
            None \<Rightarrow> LEAD_IN
          | Some (name, link) \<Rightarrow> LEAD_IN @ promotion_text name link)
   \<and> build_user_message [] None = Inr LEAD_IN"
  by (simp add: build_user_message_def promotion_block_fields promotion_fields_def)

text \<open>
  C10. Without promotion, the prompt of \<open>fs\<close> is a strict prefix of the prompt of \<open>fs\<close>
  with one more fragment: the longer prompt is the shorter one followed by the numbered
  block of the new fragment, whose index is the new length.
\<close>

theorem build_user_message_append:
  assumes "contents_of fs = map Some cs"
    and "dict_get f CONTENT = Some c"
  shows "\<exists>m. build_user_message fs None = Inr m
    \<and> build_user_message (fs @ [f]) None = Inr (m @ numbered_block (Suc (length fs)) c)
    \<and> strict_prefix m (m @ numbered_block (Suc (length fs)) c)"
proof -
  have len: "length cs = length fs"
    using assms(1) by (metis contents_of_def length_map)
  have all: "contents_of (fs @ [f]) = map Some (cs @ [c])"
    using assms by (simp add: contents_of_def)
  have short: "build_user_message fs None = Inr (LEAD_IN @ numbered_blocks_from 1 cs)"
    using fragments_loop_blocks [OF assms(1), of 1 LEAD_IN]
    by (simp add: build_user_message_def promotion_block_def)
  have long: "build_user_message (fs @ [f]) None =
      Inr ((LEAD_IN @ numbered_blocks_from 1 cs) @ numbered_block (Suc (length fs)) c)"
    using fragments_loop_blocks [OF all, of 1 LEAD_IN]
    by (simp add: build_user_message_def promotion_block_def numbered_blocks_from_snoc len)
  have "numbered_block (Suc (length fs)) c \<noteq> []"
    by (simp add: numbered_block_def BLOCK_OPEN_def)
  then have "strict_prefix (LEAD_IN @ numbered_blocks_from 1 cs)
      ((LEAD_IN @ numbered_blocks_from 1 cs) @ numbered_block (Suc (length fs)) c)"
    by (simp add: strict_prefix_def)
  with short long show ?thesis by blast
qed

theorem build_user_message_append_witness:
  "contents_of [[(CONTENT, [0x41])]] = map Some [[0x41]]
   \<and> dict_get [(CONTENT, [0x42])] CONTENT = Some [0x42]
   \<and> (\<exists>m. build_user_message [[(CONTENT, [0x41])]] None = Inr m
      \<and> build_user_message ([[(CONTENT, [0x41])]] @ [[(CONTENT, [0x42])]]) None
          = Inr (m @ numbered_block (Suc (length [[(CONTENT, [0x41::nat])]])) [0x42])
      \<and> strict_prefix m (m @ numbered_block (Suc (length [[(CONTENT, [0x41::nat])]])) [0x42]))"
proof -
  have a: "contents_of [[(CONTENT, [0x41])]] = map Some [[0x41]]"
    by (simp add: contents_of_def dict_get_def)
  have b: "dict_get [(CONTENT, [0x42])] CONTENT = Some [0x42]"
    by (simp add: dict_get_def)
  show ?thesis
    using build_user_message_append [OF a b] a b by blast
qed

text \<open>The two prompt scenarios of the specification.\<close>

lemma scenario_one_fragment:
  "build_user_message [[(CONTENT, RECIPE)]] None
     = Inr (LEAD_IN @ [0x3010, 0x788E, 0x7247, 0x20, 0x31, 0x3011, 0xA] @ RECIPE @ [0xA, 0xA])"
  by (simp add: build_user_message_def promotion_block_def dict_getitem_def str_nat.simps
      BLOCK_OPEN_def BLOCK_CLOSE_def BLANK_def)

lemma scenario_two_fragments_and_promotion:
  "build_user_message [[(CONTENT, a)], [(CONTENT, b)]]
       (Some [(PRODUCT_NAME, PRO), (LINK, X_IO)])
     = Inr (LEAD_IN @ [0x3010, 0x788E, 0x7247, 0x20, 0x31, 0x3011, 0xA] @ a @ [0xA, 0xA]
            @ [0x3010, 0x788E, 0x7247, 0x20, 0x32, 0x3011, 0xA] @ b @ [0xA, 0xA]
            @ PROMO_HEADER @ PROMO_PRODUCT @ PRO @ [0xA] @ PROMO_LINK @ X_IO @ [0xA]
            @ PROMO_INSTRUCTION)"
  by (simp add: build_user_message_def promotion_block_def dict_getitem_def dict_get_def
      str_nat.simps BLOCK_OPEN_def BLOCK_CLOSE_def BLANK_def PRODUCT_NAME_def LINK_def
      PRO_def X_IO_def)

subsection \<open>The decoder\<close>


















lemma skip_ws_Cons: "skip_ws (c # s) = (if is_ws c then skip_ws s else c # s)"
  by (simp add: skip_ws_def)













lemma skip_ws_dumps_post: "skip_ws (dumps_post post @ rest) = dumps_post post @ rest"
  by (simp add: dumps_post_def dumps_object2_def skip_ws_Cons is_ws_def)





text \<open>The definitions that evaluate the decoder on a given text.\<close>

lemmas decoder_simps = json_loads_def skip_ws_def is_ws_def append_char_def backslash_def
  hex_digit_def scan_literal_def match_number_def match_integer_def match_frac_def match_exp_def
  is_digit_def parse_int_def digits_value_def dict_of_pairs_def
  NULL_def TRUE_def FALSE_def NAN_def INFINITY_def NEG_INFINITY_def
  scan_once.simps JSONObject.simps JSONArray.simps

text \<open>The response of the specification's scenario, as it is written there.\<close>

lemma scenario_response:
  "json_loads RESPONSE_COMPACT = Inr (result_value [0x54] [0x43] [([0x46, 0x42], [0x50, 0x31])])"
  by (simp add: RESPONSE_COMPACT_def decoder_simps result_value_def post_value_def
      ARTICLE_def TITLE_def CONTENT_def SOCIAL_POSTS_def PLATFORM_def)

text \<open>Examples of what the decoder accepts and refuses.\<close>

lemma json_loads_examples:
  "json_loads [0x20, 0x5B, 0x31, 0x2C, 0x20, 0x2D, 0x32, 0x30, 0x20, 0x2C, 0x31, 0x2E, 0x35, 0x65, 0x2B, 0x33, 0x2C, 0x20, 0x74, 0x72, 0x75, 0x65, 0x2C, 0x6E, 0x75, 0x6C, 0x6C, 0x2C, 0x20, 0x7B, 0x22, 0x61, 0x22, 0x3A, 0x31, 0x2C, 0x22, 0x61, 0x22, 0x3A, 0x32, 0x7D, 0x2C, 0x20, 0x22, 0x5C, 0x75, 0x64, 0x38, 0x33, 0x64, 0x5C, 0x75, 0x64, 0x65, 0x38, 0x30, 0x5C, 0x6E, 0x22, 0x5D, 0xA]
     = Inr (JArray [JInt 1, JInt (- 20), JFloat [0x31, 0x2E, 0x35, 0x65, 0x2B, 0x33], JBool True, JNull,
                    JObject [([0x61], JInt 2)], JString [0x1F680, 0xA]])"
  "json_loads [0x6E, 0x6F, 0x74, 0x20, 0x6A, 0x73, 0x6F, 0x6E] = Inl JSONDecodeError"
  "json_loads [0x7B, 0x22, 0x61, 0x22, 0x3A, 0x20, 0x31, 0x2C, 0x7D] = Inl JSONDecodeError"
  "json_loads [0x7B, 0x7D, 0x20, 0x7B, 0x7D] = Inl JSONDecodeError"
  by (simp_all add: decoder_simps)

subsection \<open>The adapters and their caller\<close>




















end
